theory Spec2Isabelle
  imports Complex_Main
begin

section \<open>The EvolvX ranking system (frontend/utils/rankingSystem.js)\<close>

text \<open>
  The module turns a user's workout history into summary statistics, the statistics into
  a point total and the point total into one of five rank tiers. JavaScript numbers are
  IEEE doubles. Point totals, counters and millisecond timestamps are integers below
  \<open>2^53\<close> in magnitude, which doubles hold exactly, and are modelled as \<open>int\<close>. For such
  integers \<open>Math.floor (a / b)\<close> with \<open>b\<close> one of 5, 7 and 86400000 is \<open>a div b\<close>, which
  rounds towards minus infinity as \<open>Math.floor\<close> does: the rounded quotient of the
  division lies on the same side of every integer as the exact one. The quotients that
  are not floored at once (the progress percentage, the workouts-per-week rate) are computed
  in the double arithmetic of the next subsection, with the rounding after each operation.
\<close>

subsection \<open>Double arithmetic\<close>

text \<open>
  A finite double is \<open>m * 2^e\<close> for integers \<open>m\<close> and \<open>e\<close>, with \<open>\<bar>m\<bar> < 2^53\<close>; the pair
  \<open>(m, e)\<close> stands for it, and \<open>dval\<close> is its value. Overflow and subnormal numbers are
  outside the model: the magnitudes that occur are far inside the normal range.
\<close>

type_synonym double = "int \<times> int"

definition pow2 :: "int \<Rightarrow> rat" where
  "pow2 e = (if 0 \<le> e then 2 ^ nat e else 1 / 2 ^ nat (- e))"

definition dval :: "double \<Rightarrow> rat" where
  "dval d = of_int (fst d) * pow2 (snd d)"

text \<open>
  Rounding the positive number \<open>(a / b) * 2^e\<close> to 53 significant bits. The exponent is
  moved until the quotient \<open>a / b\<close> lies in \<open>[2^52, 2^53)\<close> (4503599627370496 is \<open>2^52\<close>
  and 9007199254740992 is \<open>2^53\<close>); the quotient is then rounded to the nearest integer,
  a tie going to the even one.
\<close>

function norm_up :: "int \<Rightarrow> int \<Rightarrow> int \<Rightarrow> int \<times> int \<times> int" where
  "norm_up a b e =
     (if 0 < b \<and> 9007199254740992 * b \<le> a then norm_up a (2 * b) (e + 1) else (a, b, e))"
  by pat_completeness auto
termination
  by (relation "measure (\<lambda>(a, b, e). nat (a - 9007199254740992 * b + 1))") auto

function norm_down :: "int \<Rightarrow> int \<Rightarrow> int \<Rightarrow> int \<times> int \<times> int" where
  "norm_down a b e =
     (if 0 < a \<and> a < 4503599627370496 * b then norm_down (2 * a) b (e - 1) else (a, b, e))"
  by pat_completeness auto
termination
  by (relation "measure (\<lambda>(a, b, e). nat (4503599627370496 * b - a))") auto

declare norm_up.simps [simp del] norm_down.simps [simp del]

definition round_even :: "int \<Rightarrow> int \<Rightarrow> int" where
  "round_even a b =
     (let f = a div b; r = a mod b
      in if 2 * r < b then f else if b < 2 * r then f + 1 else if even f then f else f + 1)"

definition round53 :: "int \<Rightarrow> int \<Rightarrow> int \<Rightarrow> double" where
  "round53 a b e =
     (case norm_up a b e of (a1, b1, e1) \<Rightarrow>
        (case norm_down a1 b1 e1 of (a2, b2, e2) \<Rightarrow> (round_even a2 b2, e2)))"

text \<open>The double nearest to \<open>(a / b) * 2^e\<close>, for \<open>b\<close> positive and \<open>a\<close> of either sign.\<close>

definition dround :: "int \<Rightarrow> int \<Rightarrow> int \<Rightarrow> double" where
  "dround a b e =
     (if a = 0 then (0, 0)
      else if a < 0 then (case round53 (- a) b e of (n, e') \<Rightarrow> (- n, e'))
      else round53 a b e)"

text \<open>An integer below \<open>2^53\<close> in magnitude as a double.\<close>

definition d_of_int :: "int \<Rightarrow> double" where
  "d_of_int n = (n, 0)"

text \<open>
  \<open>x / y\<close> and \<open>x * y\<close>: the exact result, rounded. A division by zero gives \<open>Infinity\<close> or
  \<open>NaN\<close> in the source, which the model does not have; no divisor of the module is zero
  (they are 7, \<open>maxPoints - minPoints\<close> of a tier of the table, and \<open>weeksActive\<close>, which is
  at least 1), and the model gives 0 there.
\<close>

definition ddiv :: "double \<Rightarrow> double \<Rightarrow> double" where
  "ddiv x y =
     (if 0 < fst y then dround (fst x) (fst y) (snd x - snd y)
      else if fst y < 0 then dround (- fst x) (- fst y) (snd x - snd y)
      else (0, 0))"

definition dmul :: "double \<Rightarrow> double \<Rightarrow> double" where
  "dmul x y = dround (fst x * fst y) 1 (snd x + snd y)"

text \<open>\<open>Math.max (x, y)\<close>, \<open>Math.min (x, y)\<close> and \<open>Math.floor (x)\<close>.\<close>

definition dmax :: "double \<Rightarrow> double \<Rightarrow> double" where
  "dmax x y = (if dval x < dval y then y else x)"

definition dmin :: "double \<Rightarrow> double \<Rightarrow> double" where
  "dmin x y = (if dval y < dval x then y else x)"

definition dfloor :: "double \<Rightarrow> int" where
  "dfloor x = (if 0 \<le> snd x then fst x * 2 ^ nat (snd x) else fst x div 2 ^ nat (- snd x))"

subsection \<open>The tier table \<open>RANKS\<close>\<close>

text \<open>\<open>maxPoints\<close> is a number or \<open>Infinity\<close> (the top tier).\<close>

datatype limit = Finite int | Infinity

record rank =
  name :: string
  level :: int
  color :: string
  gradient :: "string list"
  icon :: string
  minPoints :: int
  maxPoints :: limit
  title :: string
  description :: string

definition BRONZE :: rank where
  "BRONZE = \<lparr>name = ''Bronze'', level = 1, color = ''#CD7F32'',
     gradient = [''#CD7F32'', ''#B8860B''], icon = ''medal'',
     minPoints = 0, maxPoints = Finite 99,
     title = ''Fitness Newcomer'', description = ''Starting your fitness journey''\<rparr>"

definition SILVER :: rank where
  "SILVER = \<lparr>name = ''Silver'', level = 2, color = ''#C0C0C0'',
     gradient = [''#C0C0C0'', ''#A8A8A8''], icon = ''medal-outline'',
     minPoints = 100, maxPoints = Finite 299,
     title = ''Dedicated Lifter'', description = ''Building consistent habits''\<rparr>"

definition GOLD :: rank where
  "GOLD = \<lparr>name = ''Gold'', level = 3, color = ''#FFD700'',
     gradient = [''#FFD700'', ''#FFA500''], icon = ''trophy'',
     minPoints = 300, maxPoints = Finite 599,
     title = ''Fitness Expert'', description = ''Mastering your workouts''\<rparr>"

definition PLATINUM :: rank where
  "PLATINUM = \<lparr>name = ''Platinum'', level = 4, color = ''#E5E4E2'',
     gradient = [''#E5E4E2'', ''#B8B8B8''], icon = ''trophy-outline'',
     minPoints = 600, maxPoints = Finite 999,
     title = ''Elite Athlete'', description = ''Peak performance achieved''\<rparr>"

definition DIAMOND :: rank where
  "DIAMOND = \<lparr>name = ''Diamond'', level = 5, color = ''#B9F2FF'',
     gradient = [''#B9F2FF'', ''#87CEEB''], icon = ''diamond-stone'',
     minPoints = 1000, maxPoints = Infinity,
     title = ''Legendary Champion'', description = ''Transcended mortal limits''\<rparr>"

text \<open>\<open>Object.values(RANKS)\<close>: the tiers in the order the object literal lists them.\<close>

definition ranks :: "rank list" where
  "ranks = [BRONZE, SILVER, GOLD, PLATINUM, DIAMOND]"

subsection \<open>Tier resolution\<close>

text \<open>\<open>points <= rank.maxPoints\<close>, where the right-hand side may be \<open>Infinity\<close>.\<close>

fun le_limit :: "int \<Rightarrow> limit \<Rightarrow> bool" where
  "le_limit p (Finite m) = (p \<le> m)"
| "le_limit p Infinity = True"

text \<open>
  The range test shared by \<open>getProgressToNextRank\<close>, \<open>getPointsToNextRank\<close> and
  \<open>getNextRank\<close>: \<open>points >= rank.minPoints && points <= rank.maxPoints\<close>.
\<close>

definition in_range :: "rank \<Rightarrow> int \<Rightarrow> bool" where
  "in_range rank points = (minPoints rank \<le> points \<and> le_limit points (maxPoints rank))"

text \<open>
  \<open>getProgressToNextRank\<close>: the loop runs through the tiers from the first; the first
  tier whose range holds the points decides, and 0 is returned when none does. The
  progress \<open>((points - rank.minPoints) / (rank.maxPoints - rank.minPoints)) * 100\<close> is a
  double division followed by a double multiplication, and
  \<open>Math.min(100, Math.max(0, progress))\<close> is returned (\<open>tierProgress\<close>). The function's
  result is reported as the exact value of the double it returns.
\<close>

definition tierProgress :: "int \<Rightarrow> int \<Rightarrow> int \<Rightarrow> double" where
  "tierProgress points mn mx =
     (let progress = dmul (ddiv (d_of_int (points - mn)) (d_of_int (mx - mn))) (d_of_int 100)
      in dmin (d_of_int 100) (dmax (d_of_int 0) progress))"

fun progress_loop :: "rank list \<Rightarrow> int \<Rightarrow> double" where
  "progress_loop [] points = d_of_int 0"
| "progress_loop (rank # rest) points =
     (if in_range rank points then
        (case maxPoints rank of
           Infinity \<Rightarrow> d_of_int 100
         | Finite mx \<Rightarrow> tierProgress points (minPoints rank) mx)
      else progress_loop rest points)"

definition getProgressToNextRank :: "int \<Rightarrow> rat" where
  "getProgressToNextRank points = dval (progress_loop ranks points)"

text \<open>\<open>m + 1 - points\<close> for a \<open>maxPoints\<close> value \<open>m\<close>; from \<open>Infinity\<close> it is \<open>Infinity\<close>.\<close>

fun plus1_minus :: "limit \<Rightarrow> int \<Rightarrow> limit" where
  "plus1_minus (Finite m) points = Finite (m + 1 - points)"
| "plus1_minus Infinity points = Infinity"

text \<open>
  \<open>getPointsToNextRank\<close>: the same walk, \<open>None\<close> when no tier's range holds the points;
  the fallback after the loop is \<open>RANKS.BRONZE.maxPoints + 1 - points\<close>.
\<close>

fun points_loop :: "rank list \<Rightarrow> int \<Rightarrow> limit option" where
  "points_loop [] points = None"
| "points_loop (rank # rest) points =
     (if in_range rank points then
        (if maxPoints rank = Infinity then Some (Finite 0)
         else Some (plus1_minus (maxPoints rank) points))
      else points_loop rest points)"

definition getPointsToNextRank :: "int \<Rightarrow> limit" where
  "getPointsToNextRank points =
     (case points_loop ranks points of
        Some n \<Rightarrow> n
      | None \<Rightarrow> plus1_minus (maxPoints BRONZE) points)"

text \<open>
  \<open>getUserRank\<close> returns the tier's own fields together with three more
  (\<open>{...rank, currentPoints, progressToNext, pointsToNext}\<close>): a record extending
  \<open>rank\<close>. Its loop runs from the last tier down to the first and takes the first tier
  with \<open>points >= rank.minPoints\<close>; after the loop the Bronze tier is the fallback.
\<close>

record userRank = rank +
  currentPoints :: int
  progressToNext :: rat
  pointsToNext :: limit

fun rank_loop :: "rank list \<Rightarrow> int \<Rightarrow> rank option" where
  "rank_loop [] points = None"
| "rank_loop (rank # rest) points =
     (if minPoints rank \<le> points then Some rank else rank_loop rest points)"

definition getUserRank :: "int \<Rightarrow> userRank" where
  "getUserRank points =
     rank.extend
       (case rank_loop (rev ranks) points of Some rank \<Rightarrow> rank | None \<Rightarrow> BRONZE)
       \<lparr>currentPoints = points,
        progressToNext = getProgressToNextRank points,
        pointsToNext = getPointsToNextRank points\<rparr>"

text \<open>The tier part of a \<open>getUserRank\<close> result.\<close>

definition tier_of :: "userRank \<Rightarrow> rank" where
  "tier_of u = rank.truncate u"

subsection \<open>The score formula\<close>

text \<open>
  \<open>calculateStreaks\<close> returns \<open>{currentStreak, longestStreak}\<close>; the statistics
  object of \<open>calculateUserStats\<close> has these two fields and five more, so it is a record
  extending the first. Every field is there, so the defaults of the destructuring in
  \<open>calculateRankingPoints\<close> (\<open>totalWorkouts = 0\<close>, ...), which stand in for an absent
  property only, never apply.
\<close>

record streaks =
  currentStreak :: int
  longestStreak :: int

record userStats = streaks +
  totalWorkouts :: int
  totalExercises :: int
  workoutDays :: int
  personalRecords :: int
  consistencyScore :: int

text \<open>
  \<open>calculateRankingPoints\<close>: the source adds the seven terms to \<open>points\<close> one after the
  other and returns \<open>Math.max(0, Math.floor(points))\<close>; on an integer sum the floor
  changes nothing.
\<close>

definition calculateRankingPoints :: "userStats \<Rightarrow> int" where
  "calculateRankingPoints userStats =
     (let points = 0;
          points = points + totalWorkouts userStats * 2;
          points = points + currentStreak userStats * 3;
          points = points + longestStreak userStats * 1;
          points = points + totalExercises userStats div 5;
          points = points + consistencyScore userStats;
          points = points + personalRecords userStats * 10;
          points = points + workoutDays userStats div 7
      in max 0 points)"

text \<open>
  The formula as the specification words it, with every input clamped to zero before the
  summation. It is compared with the source's function below.
\<close>

definition spec_clampedScore :: "userStats \<Rightarrow> int" where
  "spec_clampedScore s =
     2 * max 0 (totalWorkouts s) + 3 * max 0 (currentStreak s) + 1 * max 0 (longestStreak s)
     + max 0 (totalExercises s) div 5 + max 0 (consistencyScore s)
     + 10 * max 0 (personalRecords s) + max 0 (workoutDays s) div 7"

subsection \<open>Workout records and the platform\<close>

text \<open>
  A workout carries its date and, optionally, a list of exercises whose name may be
  missing. \<open>workout_date\<close> is the time value of \<open>new Date(w.workout_date)\<close> in
  milliseconds since the epoch. A record whose date does not parse has the time value
  \<open>NaN\<close>, with which the comparison functions handed to \<open>sort\<close> are inconsistent and the
  order that \<open>sort\<close> produces is left to the implementation: such records are outside the
  model. \<open>workout_id\<close> stands for the record's other properties, which the module never
  reads: it tells two records of one date apart. A string is the list of its bytes in
  UTF-8.
\<close>

record exercise =
  exercise_name :: "string option"

record workout =
  workout_id :: nat
  workout_date :: int
  exercises :: "exercise list option"

text \<open>
  What the module takes from the platform it runs on: \<open>now\<close> is the time value of
  \<open>new Date()\<close>; \<open>localTZA t isUTC\<close> is the local zone's offset from UTC in milliseconds
  (the \<open>LocalTZA\<close> of the language definition), at the UTC instant \<open>t\<close> when \<open>isUTC\<close>
  holds and at the local time \<open>t\<close> otherwise, so that a zone with daylight-saving time
  has its changes; \<open>toLowerCase\<close> is \<open>String.prototype.toLowerCase\<close>.
\<close>

record platform =
  now :: int
  localTZA :: "int \<Rightarrow> bool \<Rightarrow> int"
  toLowerCase :: "string \<Rightarrow> string"

definition msPerDay :: int where
  "msPerDay = 1000 * 60 * 60 * 24"

text \<open>
  \<open>date.setHours(0, 0, 0, 0); date.getTime()\<close>: the time value is taken to local time,
  its time within the day is set to zero, and the result goes back to UTC.
\<close>

definition startOfDay :: "platform \<Rightarrow> int \<Rightarrow> int" where
  "startOfDay env t =
     (let localTime = t + localTZA env t True;
          midnight = localTime - localTime mod msPerDay
      in midnight - localTZA env midnight False)"

text \<open>
  \<open>checkDate.setDate(checkDate.getDate() - 1)\<close>: the local time moves back by one
  calendar day, the time within the day kept, and the result goes back to UTC.
\<close>

definition previousDay :: "platform \<Rightarrow> int \<Rightarrow> int" where
  "previousDay env t =
     (let localTime = t + localTZA env t True;
          newDate = localTime - msPerDay
      in newDate - localTZA env newDate False)"

text \<open>
  The platform of the concrete inputs below: the clock reads \<open>t\<close>, the zone is UTC, and
  \<open>toLowerCase\<close> folds the letters A to Z, which is what the platform's function does on
  an ASCII string.
\<close>

definition asciiToLowerCase :: "string \<Rightarrow> string" where
  "asciiToLowerCase s =
     map (\<lambda>c. let n = (of_char c :: nat) in if 65 \<le> n \<and> n \<le> 90 then char_of (n + 32) else c) s"

definition utcPlatform :: "int \<Rightarrow> platform" where
  "utcPlatform t = \<lparr>now = t, localTZA = (\<lambda>t isUTC. 0), toLowerCase = asciiToLowerCase\<rparr>"

text \<open>
  A zone with a daylight-saving change, for one more concrete input: US Eastern time in
  March 2024, five hours behind UTC until 2024-03-10T07:00Z (1710054000000) and four
  hours behind from then on; a local time before 03:00 of that day (1710039600000) is read
  with the earlier offset.
\<close>

definition usEastern :: "int \<Rightarrow> bool \<Rightarrow> int" where
  "usEastern t isUTC =
     (if isUTC then (if t < 1710054000000 then - 18000000 else - 14400000)
      else (if t < 1710039600000 then - 18000000 else - 14400000))"

subsection \<open>Streaks\<close>

text \<open>
  \<open>[...new Set(xs)]\<close>: the distinct elements in the order of their first occurrence.
\<close>

definition setValues :: "'a list \<Rightarrow> 'a list" where
  "setValues xs = rev (remdups (rev xs))"

text \<open>
  The current-streak loop over the distinct days, newest first: \<open>checkDate\<close> starts at
  today's midnight; a day whose \<open>daysDiff\<close> from \<open>checkDate\<close> is 0 or 1 is counted and
  moves \<open>checkDate\<close> to the day before it, any other day ends the loop (\<open>break\<close>).
\<close>

fun currentStreak_loop :: "platform \<Rightarrow> int \<Rightarrow> int list \<Rightarrow> int \<Rightarrow> int" where
  "currentStreak_loop env checkDate [] streak = streak"
| "currentStreak_loop env checkDate (workoutDate # rest) streak =
     (let daysDiff = (checkDate - workoutDate) div msPerDay
      in if daysDiff = 0 \<or> daysDiff = 1
         then currentStreak_loop env (previousDay env workoutDate) rest (streak + 1)
         else streak)"

text \<open>
  The longest-streak loop, \<open>i\<close> from 1: the list argument starts at
  \<open>workoutDates[i - 1]\<close>; the result is the pair \<open>(longestStreak, tempStreak)\<close> at the
  loop's end.
\<close>

fun longestStreak_loop :: "int list \<Rightarrow> int \<Rightarrow> int \<Rightarrow> int \<times> int" where
  "longestStreak_loop (prevDate # currDate # rest) longest tempStreak =
     (let daysDiff = (prevDate - currDate) div msPerDay
      in if daysDiff = 1
         then longestStreak_loop (currDate # rest) longest (tempStreak + 1)
         else longestStreak_loop (currDate # rest) (max longest tempStreak) 1)"
| "longestStreak_loop _ longest tempStreak = (longest, tempStreak)"

text \<open>
  \<open>calculateStreaks\<close>. \<open>workouts.sort(...)\<close> sorts the caller's array in place (a stable
  sort, newest date first) and returns that same array, so the function is modelled as
  returning the array's final content beside its result. A \<open>null\<close> or \<open>undefined\<close>
  argument takes the early return of the empty array; the model has the array only.
\<close>

definition calculateStreaks :: "platform \<Rightarrow> workout list \<Rightarrow> workout list \<times> streaks" where
  "calculateStreaks env workouts =
     (if workouts = [] then (workouts, \<lparr>currentStreak = 0, longestStreak = 0\<rparr>)
      else
        (let sortedWorkouts = sort_key (\<lambda>w. - workout_date w) workouts;
             today = startOfDay env (now env);
             workoutDates = sort_key (\<lambda>t. - t)
               (setValues (map (\<lambda>w. startOfDay env (workout_date w)) sortedWorkouts));
             current = currentStreak_loop env today workoutDates 0;
             (longest, tempStreak) = longestStreak_loop workoutDates 0 1;
             longest = max longest tempStreak
         in (sortedWorkouts, \<lparr>currentStreak = current, longestStreak = longest\<rparr>)))"

subsection \<open>Statistics\<close>

text \<open>
  \<open>exercise.name?.toLowerCase() || 'unknown'\<close>: a missing name, and a name whose lower
  case is the empty string, give \<open>'unknown'\<close>.
\<close>

definition exerciseKey :: "platform \<Rightarrow> exercise \<Rightarrow> string" where
  "exerciseKey env e =
     (case exercise_name e of
        None \<Rightarrow> ''unknown''
      | Some n \<Rightarrow> (if toLowerCase env n = [] then ''unknown'' else toLowerCase env n))"

text \<open>The names added to the set \<open>uniqueExercises\<close>, in the order of the two \<open>forEach\<close> loops.\<close>

definition exerciseKeys :: "platform \<Rightarrow> workout list \<Rightarrow> string list" where
  "exerciseKeys env workouts =
     concat (map (\<lambda>w. case exercises w of None \<Rightarrow> [] | Some es \<Rightarrow> map (exerciseKey env) es)
       workouts)"

text \<open>\<open>Math.ceil (a / b)\<close> on integers, \<open>b\<close> positive (here 86400000).\<close>

definition ceilDiv :: "int \<Rightarrow> int \<Rightarrow> int" where
  "ceilDiv a b = - ((- a) div b)"

text \<open>
  \<open>calculateUserStats\<close>. The first \<open>workouts.sort(...)\<close> sorts the caller's array in place,
  oldest date first; \<open>sortedWorkouts\<close> and \<open>workouts\<close> are the same array from then on,
  and \<open>calculateStreaks(workouts)\<close> sorts it once more. The array's final content is
  returned beside the statistics. The unused parameter \<open>user\<close> is left out. The
  consistency score \<open>Math.min(100, Math.floor(workoutsPerWeek * 20))\<close> comes from two
  double divisions and a double multiplication.
\<close>

definition calculateUserStats :: "platform \<Rightarrow> workout list \<Rightarrow> workout list \<times> userStats" where
  "calculateUserStats env workouts =
     (if workouts = [] then
        (workouts,
         \<lparr>currentStreak = 0, longestStreak = 0, totalWorkouts = 0, totalExercises = 0,
          workoutDays = 0, personalRecords = 0, consistencyScore = 0\<rparr>)
      else
        (let sortedWorkouts = sort_key workout_date workouts;
             total = int (length sortedWorkouts);
             uniqueExercises = remdups (exerciseKeys env sortedWorkouts);
             firstWorkoutDate = workout_date (hd sortedWorkouts);
             lastWorkoutDate = workout_date (last sortedWorkouts);
             days = ceilDiv (lastWorkoutDate - firstWorkoutDate) msPerDay + 1;
             (workouts', s) = calculateStreaks env sortedWorkouts;
             weeksActive = dmax (d_of_int 1) (ddiv (d_of_int days) (d_of_int 7));
             workoutsPerWeek = ddiv (d_of_int total) weeksActive;
             consistency = min 100 (dfloor (dmul workoutsPerWeek (d_of_int 20)));
             records = total div 5
         in (workouts',
             \<lparr>currentStreak = currentStreak s, longestStreak = longestStreak s,
              totalWorkouts = total, totalExercises = int (length uniqueExercises),
              workoutDays = days, personalRecords = records,
              consistencyScore = consistency\<rparr>)))"

section \<open>Properties of the double arithmetic\<close>

lemma pow2_pos: "0 < pow2 e"
  by (simp add: pow2_def)

lemma pow2_0: "pow2 0 = 1"
  by (simp add: pow2_def)

lemma pow2_powi: "pow2 e = 2 powi e"
  by (simp add: pow2_def power_int_def power_one_over)

lemma pow2_Suc: "pow2 (e + 1) = 2 * pow2 e"
  by (simp add: pow2_powi power_int_add)

lemma pow2_pred: "pow2 (e - 1) = pow2 e / 2"
  using pow2_Suc [of "e - 1"] by simp

lemma dval_pair: "dval (n, e) = of_int n * pow2 e"
  by (simp add: dval_def)

lemma dval_of_int: "dval (d_of_int n) = of_int n"
  by (simp add: d_of_int_def dval_def pow2_0)

lemma dval_dmax: "dval (dmax x y) = max (dval x) (dval y)"
  by (simp add: dmax_def max_def)

lemma dval_dmin: "dval (dmin x y) = min (dval x) (dval y)"
  by (simp add: dmin_def min_def)

text \<open>Moving the exponent keeps the number, and the second loop ends with a quotient of at least \<open>2^52\<close>.\<close>

lemma norm_up_value:
  "0 < a \<Longrightarrow> 0 < b \<Longrightarrow> norm_up a b e = (a', b', e') \<Longrightarrow>
     0 < a' \<and> 0 < b' \<and> of_int a' / of_int b' * pow2 e' = of_int a / of_int b * pow2 e"
proof (induction a b e rule: norm_up.induct)
  case (1 a b e)
  show ?case
  proof (cases "0 < b \<and> 9007199254740992 * b \<le> a")
    case True
    have "norm_up a b e = norm_up a (2 * b) (e + 1)"
      by (subst norm_up.simps) (use True in simp)
    then have "norm_up a (2 * b) (e + 1) = (a', b', e')"
      using "1.prems"(3) by simp
    with "1.IH" True "1.prems"(1)
    have "0 < a' \<and> 0 < b' \<and> of_int a' / of_int b' * pow2 e' = of_int a / of_int (2 * b) * pow2 (e + 1)"
      by simp
    then show ?thesis by (simp add: pow2_Suc)
  next
    case False
    have "norm_up a b e = (a, b, e)"
      by (subst norm_up.simps) (use False in auto)
    with "1.prems" show ?thesis by simp
  qed
qed

lemma norm_down_value:
  "0 < a \<Longrightarrow> 0 < b \<Longrightarrow> norm_down a b e = (a', b', e') \<Longrightarrow>
     0 < b' \<and> 4503599627370496 * b' \<le> a'
     \<and> of_int a' / of_int b' * pow2 e' = of_int a / of_int b * pow2 e"
proof (induction a b e rule: norm_down.induct)
  case (1 a b e)
  show ?case
  proof (cases "0 < a \<and> a < 4503599627370496 * b")
    case True
    have "norm_down a b e = norm_down (2 * a) b (e - 1)"
      by (subst norm_down.simps) (use True in simp)
    then have "norm_down (2 * a) b (e - 1) = (a', b', e')"
      using "1.prems"(3) by simp
    with "1.IH" True "1.prems"(2)
    have "0 < b' \<and> 4503599627370496 * b' \<le> a'
       \<and> of_int a' / of_int b' * pow2 e' = of_int (2 * a) / of_int b * pow2 (e - 1)"
      by simp
    then show ?thesis by (simp add: pow2_pred)
  next
    case False
    have "norm_down a b e = (a, b, e)"
      by (subst norm_down.simps) (use False in auto)
    with "1.prems" False show ?thesis by auto
  qed
qed

text \<open>Rounding to the nearest integer moves a quotient by at most one half.\<close>

lemma round_even_error:
  assumes "0 < b"
  shows "\<bar>of_int (round_even a b) - (of_int a / of_int b :: rat)\<bar> \<le> 1 / 2"
proof -
  define f where "f = a div b"
  define r where "r = a mod b"
  have a: "a = b * f + r" by (simp add: f_def r_def)
  have r: "0 \<le> r" "r < b" using assms by (simp_all add: r_def)
  have q: "(of_int a / of_int b :: rat) = of_int f + of_int r / of_int b"
    using assms by (simp add: a field_simps)
  have lo: "2 * r \<le> b \<Longrightarrow> (of_int r / of_int b :: rat) \<le> 1 / 2"
  proof -
    assume "2 * r \<le> b"
    then have "(of_int (2 * r) :: rat) \<le> of_int b" by (simp only: of_int_le_iff)
    with assms show ?thesis by (simp add: field_simps)
  qed
  have hi: "b \<le> 2 * r \<Longrightarrow> (1 / 2 :: rat) \<le> of_int r / of_int b"
  proof -
    assume "b \<le> 2 * r"
    then have "(of_int b :: rat) \<le> of_int (2 * r)" by (simp only: of_int_le_iff)
    with assms show ?thesis by (simp add: field_simps)
  qed
  have nn: "(0 :: rat) \<le> of_int r / of_int b" using r assms by simp
  have lt1: "(of_int r / of_int b :: rat) < 1" using r assms by simp
  have re: "round_even a b =
      (if 2 * r < b then f else if b < 2 * r then f + 1 else if even f then f else f + 1)"
    by (simp add: round_even_def Let_def f_def r_def)
  have "(round_even a b = f \<and> 2 * r \<le> b) \<or> (round_even a b = f + 1 \<and> b \<le> 2 * r)"
    by (simp add: re)
  then show ?thesis
  proof (elim disjE conjE)
    assume "round_even a b = f" "2 * r \<le> b"
    with lo nn show ?thesis by (simp add: q)
  next
    assume "round_even a b = f + 1" "b \<le> 2 * r"
    with hi lt1 show ?thesis by (simp add: q)
  qed
qed

text \<open>
  The rounded value of a positive number has a positive mantissa and is off by at most
  the number times \<open>2^-53\<close>.
\<close>

lemma round53_error:
  assumes "0 < a" "0 < b" "round53 a b e = (n, e')"
  shows "0 < n \<and> \<bar>dval (n, e') - of_int a / of_int b * pow2 e\<bar>
           \<le> of_int a / of_int b * pow2 e / 9007199254740992"
proof -
  obtain a1 b1 e1 where up: "norm_up a b e = (a1, b1, e1)"
    by (metis prod_cases3)
  obtain a2 b2 e2 where down: "norm_down a1 b1 e1 = (a2, b2, e2)"
    by (metis prod_cases3)
  from assms(3) up down have n: "n = round_even a2 b2" and e': "e' = e2"
    by (simp_all add: round53_def)
  from norm_up_value [OF assms(1,2) up]
  have u: "0 < a1" "0 < b1" "of_int a1 / of_int b1 * pow2 e1 = of_int a / of_int b * pow2 e"
    by simp_all
  from norm_down_value [OF u(1,2) down]
  have d: "0 < b2" "4503599627370496 * b2 \<le> a2"
    "of_int a2 / of_int b2 * pow2 e2 = of_int a1 / of_int b1 * pow2 e1"
    by simp_all
  define m :: rat where "m = of_int a2 / of_int b2"
  define x :: rat where "x = of_int a / of_int b * pow2 e"
  have x: "x = m * pow2 e2" using d(3) u(3) by (simp add: m_def x_def)
  have "(of_int (4503599627370496 * b2) :: rat) \<le> of_int a2"
    using d(2) by (simp only: of_int_le_iff)
  then have m52: "4503599627370496 \<le> m"
    using d(1) by (simp add: m_def field_simps)
  have err: "\<bar>of_int n - m\<bar> \<le> 1 / 2"
    unfolding n m_def using d(1) by (rule round_even_error)
  then have "m - 1 / 2 \<le> of_int n" by linarith
  with m52 have "(0 :: rat) < of_int n" by linarith
  then have npos: "0 < n" by simp
  have "\<bar>dval (n, e') - x\<bar> = \<bar>of_int n - m\<bar> * pow2 e2"
    using pow2_pos [of e2] by (simp add: dval_pair e' x left_diff_distrib [symmetric] abs_mult)
  also have "\<dots> \<le> (1 / 2) * pow2 e2"
    using err pow2_pos [of e2] by (simp add: mult_right_mono)
  also have "\<dots> \<le> (m / 9007199254740992) * pow2 e2"
    using m52 pow2_pos [of e2] by (simp add: mult_right_mono)
  finally have "\<bar>dval (n, e') - x\<bar> \<le> x / 9007199254740992"
    by (simp add: x)
  with npos show ?thesis by (simp add: x_def)
qed

text \<open>
  The progress inside a tier: the double that the two operations give lies in \<open>[0, 100]\<close>
  and differs from the exact quotient \<open>100 * (points - mn) / (mx - mn)\<close> by at most that
  quotient times \<open>2^-51\<close> (2251799813685248 is \<open>2^51\<close>).
\<close>

lemma dround_pos_error:
  assumes "0 < a" "0 < b" "dround a b e = (n, e')"
  shows "0 < n \<and> \<bar>dval (n, e') - of_int a / of_int b * pow2 e\<bar>
           \<le> of_int a / of_int b * pow2 e / 9007199254740992"
  using assms round53_error [of a b e n e'] by (simp add: dround_def)

lemma tierProgress_error:
  assumes "mn \<le> points" "points \<le> mx" "mn < mx"
  shows "0 \<le> dval (tierProgress points mn mx) \<and> dval (tierProgress points mn mx) \<le> 100
       \<and> \<bar>dval (tierProgress points mn mx) - 100 * of_int (points - mn) / of_int (mx - mn)\<bar>
           \<le> 100 * of_int (points - mn) / of_int (mx - mn) / 2251799813685248"
proof -
  define a where "a = points - mn"
  define b where "b = mx - mn"
  define t :: rat where "t = 100 * of_int a / of_int b"
  define r where "r = dval (dmul (ddiv (d_of_int a) (d_of_int b)) (d_of_int 100))"
  have ab: "0 \<le> a" "a \<le> b" "0 < b" using assms by (simp_all add: a_def b_def)
  have tp: "dval (tierProgress points mn mx) = min 100 (max 0 r)"
    by (simp add: tierProgress_def r_def a_def b_def dval_dmin dval_dmax dval_of_int)
  have t0: "0 \<le> t" using ab by (simp add: t_def)
  have "(of_int a :: rat) \<le> of_int b" using ab(2) by (simp only: of_int_le_iff)
  then have t100: "t \<le> 100" using ab(3) by (simp add: t_def field_simps)
  have rt: "\<bar>r - t\<bar> \<le> t / 2251799813685248"
  proof (cases "a = 0")
    case True
    then show ?thesis
      by (simp add: r_def t_def ddiv_def dmul_def d_of_int_def dround_def ab(3) dval_def)
  next
    case False
    with ab have apos: "0 < a" by simp
    obtain n1 e1 where d1: "dround a b 0 = (n1, e1)" by (metis prod.exhaust)
    from dround_pos_error [OF apos ab(3) d1]
    have n1: "0 < n1" and err1: "\<bar>dval (n1, e1) - of_int a / of_int b\<bar>
        \<le> of_int a / of_int b / 9007199254740992"
      by (simp_all add: pow2_0)
    obtain n2 e2 where d2: "dround (n1 * 100) 1 e1 = (n2, e2)" by (metis prod.exhaust)
    have n100: "0 < n1 * 100" using n1 by simp
    have y: "of_int (n1 * 100) / of_int 1 * pow2 e1 = 100 * dval (n1, e1)"
      by (simp add: dval_pair)
    have "\<bar>dval (n2, e2) - of_int (n1 * 100) / of_int 1 * pow2 e1\<bar>
        \<le> of_int (n1 * 100) / of_int 1 * pow2 e1 / 9007199254740992"
      using dround_pos_error [OF n100 _ d2] by simp
    then have err2: "\<bar>dval (n2, e2) - 100 * dval (n1, e1)\<bar>
        \<le> 100 * dval (n1, e1) / 9007199254740992"
      by (simp only: y)
    have r: "r = dval (n2, e2)"
      using ab(3) d1 d2 by (simp add: r_def ddiv_def dmul_def d_of_int_def)
    define q :: rat where "q = of_int a / of_int b"
    define q1 where "q1 = dval (n1, e1)"
    have q0: "0 \<le> q" using ab by (simp add: q_def)
    have e1': "\<bar>q1 - q\<bar> \<le> q / 9007199254740992" using err1 by (simp add: q_def q1_def)
    have e2': "\<bar>r - 100 * q1\<bar> \<le> 100 * q1 / 9007199254740992" using err2 by (simp add: r q1_def)
    have tq: "t = 100 * q" by (simp add: t_def q_def)
    from e1' have "q1 \<le> 2 * q" using q0 by linarith
    with e2' have "\<bar>r - 100 * q1\<bar> \<le> 200 * q / 9007199254740992" by linarith
    with e1' have "\<bar>r - 100 * q\<bar> \<le> 300 * q / 9007199254740992" by linarith
    with q0 show ?thesis by (simp add: tq)
  qed
  have clamp: "\<bar>min 100 (max 0 r) - t\<bar> \<le> \<bar>r - t\<bar>"
    using t0 t100 by (simp add: min_def max_def)
  have b1: "0 \<le> min 100 (max 0 r)" and b2: "min 100 (max 0 r) \<le> 100"
    by simp_all
  have b3: "\<bar>min 100 (max 0 r) - t\<bar> \<le> t / 2251799813685248"
    using clamp rt by (rule order_trans)
  have T: "100 * of_int (points - mn) / of_int (mx - mn) = t"
    by (simp add: t_def a_def b_def)
  show ?thesis
    unfolding tp T using b1 b2 b3 by (intro conjI)
qed

lemma tierProgress_at_min: "mn < mx \<Longrightarrow> dval (tierProgress mn mn mx) = 0"
  by (simp add: tierProgress_def ddiv_def dmul_def d_of_int_def dround_def dmin_def dmax_def
      dval_def pow2_def Let_def)

section \<open>Properties of tier resolution\<close>

subsection \<open>The table's thresholds\<close>

lemma tier_min:
  "minPoints BRONZE = 0" "minPoints SILVER = 100" "minPoints GOLD = 300"
  "minPoints PLATINUM = 600" "minPoints DIAMOND = 1000"
  by (simp_all add: BRONZE_def SILVER_def GOLD_def PLATINUM_def DIAMOND_def)

lemma tier_max:
  "maxPoints BRONZE = Finite 99" "maxPoints SILVER = Finite 299" "maxPoints GOLD = Finite 599"
  "maxPoints PLATINUM = Finite 999" "maxPoints DIAMOND = Infinity"
  by (simp_all add: BRONZE_def SILVER_def GOLD_def PLATINUM_def DIAMOND_def)

lemma tier_level:
  "level BRONZE = 1" "level SILVER = 2" "level GOLD = 3" "level PLATINUM = 4" "level DIAMOND = 5"
  by (simp_all add: BRONZE_def SILVER_def GOLD_def PLATINUM_def DIAMOND_def)

lemma in_range_tiers:
  "in_range BRONZE p = (0 \<le> p \<and> p \<le> 99)"
  "in_range SILVER p = (100 \<le> p \<and> p \<le> 299)"
  "in_range GOLD p = (300 \<le> p \<and> p \<le> 599)"
  "in_range PLATINUM p = (600 \<le> p \<and> p \<le> 999)"
  "in_range DIAMOND p = (1000 \<le> p)"
  by (simp_all add: in_range_def tier_min tier_max)

lemma set_ranks: "set ranks = {BRONZE, SILVER, GOLD, PLATINUM, DIAMOND}"
  by (simp add: ranks_def)

subsection \<open>What the three walks return\<close>

lemma rank_loop_ranks:
  "rank_loop (rev ranks) p =
     (if 1000 \<le> p then Some DIAMOND else if 600 \<le> p then Some PLATINUM
      else if 300 \<le> p then Some GOLD else if 100 \<le> p then Some SILVER
      else if 0 \<le> p then Some BRONZE else None)"
  by (simp add: ranks_def tier_min)

lemma tier_of_getUserRank:
  "tier_of (getUserRank p) =
     (case rank_loop (rev ranks) p of Some rank \<Rightarrow> rank | None \<Rightarrow> BRONZE)"
  by (simp add: getUserRank_def tier_of_def rank.defs)

lemma getUserRank_fields:
  "currentPoints (getUserRank p) = p"
  "progressToNext (getUserRank p) = getProgressToNextRank p"
  "pointsToNext (getUserRank p) = getPointsToNextRank p"
  by (simp_all add: getUserRank_def rank.defs)

lemma getUserRank_tier_fields:
  "minPoints (getUserRank p) = minPoints (tier_of (getUserRank p))"
  "maxPoints (getUserRank p) = maxPoints (tier_of (getUserRank p))"
  "level (getUserRank p) = level (tier_of (getUserRank p))"
  "name (getUserRank p) = name (tier_of (getUserRank p))"
  by (simp_all add: tier_of_def rank.defs)

lemma tier_of_resolved:
  "1000 \<le> p \<Longrightarrow> tier_of (getUserRank p) = DIAMOND"
  "600 \<le> p \<Longrightarrow> p \<le> 999 \<Longrightarrow> tier_of (getUserRank p) = PLATINUM"
  "300 \<le> p \<Longrightarrow> p \<le> 599 \<Longrightarrow> tier_of (getUserRank p) = GOLD"
  "100 \<le> p \<Longrightarrow> p \<le> 299 \<Longrightarrow> tier_of (getUserRank p) = SILVER"
  "p \<le> 99 \<Longrightarrow> tier_of (getUserRank p) = BRONZE"
  by (simp_all add: tier_of_getUserRank rank_loop_ranks)

lemma progress_loop_ranks:
  "getProgressToNextRank p =
     (if 0 \<le> p \<and> p \<le> 99 then dval (tierProgress p 0 99)
      else if 100 \<le> p \<and> p \<le> 299 then dval (tierProgress p 100 299)
      else if 300 \<le> p \<and> p \<le> 599 then dval (tierProgress p 300 599)
      else if 600 \<le> p \<and> p \<le> 999 then dval (tierProgress p 600 999)
      else if 1000 \<le> p then 100 else 0)"
  by (simp add: getProgressToNextRank_def ranks_def in_range_tiers tier_min tier_max dval_of_int)

lemma progress_at_0: "getProgressToNextRank 0 = 0"
  by (simp add: progress_loop_ranks tierProgress_at_min)

lemma progress_at_150: "getProgressToNextRank 150 = 7072235595745125 / 281474976710656"
  by (simp add: progress_loop_ranks tierProgress_def ddiv_def dmul_def dmax_def dmin_def
      d_of_int_def dround_def round53_def round_even_def dval_def pow2_def
      norm_up.simps norm_down.simps)

lemma points_loop_ranks:
  "getPointsToNextRank p =
     Finite (if p \<le> 99 then 100 - p
      else if p \<le> 299 then 300 - p
      else if p \<le> 599 then 600 - p
      else if p \<le> 999 then 1000 - p
      else 0)"
  by (simp add: getPointsToNextRank_def ranks_def in_range_tiers tier_min tier_max)

lemma in_range_exists:
  assumes "0 \<le> p"
  shows "\<exists>r. r \<in> set ranks \<and> in_range r p"
proof -
  from assms consider "p \<le> 99" | "100 \<le> p \<and> p \<le> 299" | "300 \<le> p \<and> p \<le> 599"
    | "600 \<le> p \<and> p \<le> 999" | "1000 \<le> p"
    by linarith
  then show ?thesis
  proof cases
    case 1
    with assms have "BRONZE \<in> set ranks \<and> in_range BRONZE p"
      by (simp add: set_ranks in_range_tiers)
    then show ?thesis by blast
  next
    case 2
    then have "SILVER \<in> set ranks \<and> in_range SILVER p"
      by (simp add: set_ranks in_range_tiers)
    then show ?thesis by blast
  next
    case 3
    then have "GOLD \<in> set ranks \<and> in_range GOLD p"
      by (simp add: set_ranks in_range_tiers)
    then show ?thesis by blast
  next
    case 4
    then have "PLATINUM \<in> set ranks \<and> in_range PLATINUM p"
      by (simp add: set_ranks in_range_tiers)
    then show ?thesis by blast
  next
    case 5
    then have "DIAMOND \<in> set ranks \<and> in_range DIAMOND p"
      by (simp add: set_ranks in_range_tiers)
    then show ?thesis by blast
  qed
qed

lemma in_range_unique:
  "r \<in> set ranks \<Longrightarrow> in_range r p \<Longrightarrow> r' \<in> set ranks \<Longrightarrow> in_range r' p \<Longrightarrow> r = r'"
  by (auto simp add: set_ranks in_range_tiers)

lemma in_range_resolved:
  "r \<in> set ranks \<Longrightarrow> in_range r p \<Longrightarrow> tier_of (getUserRank p) = r"
  by (auto simp add: set_ranks in_range_tiers tier_of_resolved)

text \<open>
  C4. For every non-negative integer point total exactly one of the five tiers has a range
  (\<open>minPoints <= points <= maxPoints\<close>, the test the source applies) that contains it,
  and \<open>getUserRank\<close> resolves the total to that tier; a total equal to a tier's
  \<open>minPoints\<close> resolves to that very tier, for each of the five; the top tier's
  \<open>maxPoints\<close> is \<open>Infinity\<close>, so every total from its \<open>minPoints\<close> on is in its range.
\<close>

theorem tier_ranges_partition:
  assumes "0 \<le> points"
  shows "(\<exists>!r. r \<in> set ranks \<and> in_range r points)
       \<and> tier_of (getUserRank points) \<in> set ranks
       \<and> in_range (tier_of (getUserRank points)) points
       \<and> tier_of (getUserRank (minPoints BRONZE)) = BRONZE
       \<and> tier_of (getUserRank (minPoints SILVER)) = SILVER
       \<and> tier_of (getUserRank (minPoints GOLD)) = GOLD
       \<and> tier_of (getUserRank (minPoints PLATINUM)) = PLATINUM
       \<and> tier_of (getUserRank (minPoints DIAMOND)) = DIAMOND
       \<and> maxPoints DIAMOND = Infinity
       \<and> (minPoints DIAMOND \<le> points \<longrightarrow> in_range DIAMOND points)"
proof -
  from in_range_exists [OF assms] obtain r where r: "r \<in> set ranks" "in_range r points"
    by blast
  then have ex1: "\<exists>!r. r \<in> set ranks \<and> in_range r points"
    using in_range_unique by blast
  from r have res: "tier_of (getUserRank points) = r"
    by (rule in_range_resolved)
  have bounds: "tier_of (getUserRank (minPoints BRONZE)) = BRONZE
       \<and> tier_of (getUserRank (minPoints SILVER)) = SILVER
       \<and> tier_of (getUserRank (minPoints GOLD)) = GOLD
       \<and> tier_of (getUserRank (minPoints PLATINUM)) = PLATINUM
       \<and> tier_of (getUserRank (minPoints DIAMOND)) = DIAMOND"
    by (simp add: tier_min tier_of_resolved)
  have top: "maxPoints DIAMOND = Infinity \<and> (minPoints DIAMOND \<le> points \<longrightarrow> in_range DIAMOND points)"
    by (simp add: tier_max tier_min in_range_tiers)
  from ex1 r res bounds top show ?thesis by simp
qed

theorem tier_ranges_partition_witness:
  "(0::int) \<le> 1500 \<and> tier_of (getUserRank 1500) = DIAMOND \<and> in_range DIAMOND 1500
   \<and> tier_of (getUserRank 100) = SILVER \<and> \<not> in_range BRONZE 100"
  using tier_ranges_partition [of 1500]
  by (simp add: tier_min in_range_tiers tier_of_resolved)

lemma finite_tier_progress:
  assumes "getProgressToNextRank points = dval (tierProgress points mn mx)"
    and "mn \<le> points" "points \<le> mx" "mn < mx"
    and "getPointsToNextRank points = Finite (mx + 1 - points)"
    and "minPoints r = mn" "maxPoints r = Finite mx"
  shows "case maxPoints r of
            Finite mx \<Rightarrow>
              getProgressToNextRank points =
                dval (dmin (d_of_int 100) (dmax (d_of_int 0)
                  (dmul (ddiv (d_of_int (points - minPoints r)) (d_of_int (mx - minPoints r)))
                        (d_of_int 100))))
              \<and> 0 \<le> getProgressToNextRank points \<and> getProgressToNextRank points \<le> 100
              \<and> \<bar>getProgressToNextRank points
                   - 100 * of_int (points - minPoints r) / of_int (mx - minPoints r)\<bar>
                  \<le> 100 * of_int (points - minPoints r) / of_int (mx - minPoints r)
                       / 2251799813685248
              \<and> getPointsToNextRank points = Finite (mx + 1 - points)
          | Infinity \<Rightarrow>
              getProgressToNextRank points = 100 \<and> getPointsToNextRank points = Finite 0"
proof -
  note e = tierProgress_error [OF assms(2-4), folded assms(1)]
  have a: "getProgressToNextRank points =
      dval (dmin (d_of_int 100) (dmax (d_of_int 0)
        (dmul (ddiv (d_of_int (points - mn)) (d_of_int (mx - mn))) (d_of_int 100))))"
    using assms(1) by (simp add: tierProgress_def)
  have main: "getProgressToNextRank points =
      dval (dmin (d_of_int 100) (dmax (d_of_int 0)
        (dmul (ddiv (d_of_int (points - mn)) (d_of_int (mx - mn))) (d_of_int 100))))
    \<and> 0 \<le> getProgressToNextRank points \<and> getProgressToNextRank points \<le> 100
    \<and> \<bar>getProgressToNextRank points - 100 * of_int (points - mn) / of_int (mx - mn)\<bar>
        \<le> 100 * of_int (points - mn) / of_int (mx - mn) / 2251799813685248
    \<and> getPointsToNextRank points = Finite (mx + 1 - points)"
    using a e assms(5) by blast
  show ?thesis
    unfolding assms(6) assms(7) limit.case by (rule main)
qed

text \<open>
  C5 (amended). For a point total in the range of a tier \<open>r\<close>, \<open>getUserRank\<close> resolves to
  \<open>r\<close>. If \<open>r\<close> is not the top tier, \<open>progressToNext\<close> is the double that
  \<open>((points - minPoints) / (maxPoints - minPoints)) * 100\<close> gives in double arithmetic,
  with a rounding after the division and one after the multiplication, clamped to
  \<open>[0, 100]\<close>: it lies in \<open>[0, 100]\<close> and differs from the exact value
  \<open>100 * (points - minPoints) / (maxPoints - minPoints)\<close> by at most that value times
  \<open>2^-51\<close>. \<open>pointsToNext\<close> is \<open>maxPoints + 1 - points\<close>, the distance to the next tier's
  \<open>minPoints\<close>. In the top tier they are 100 and 0. The stand-alone functions return the
  same values.
\<close>

theorem progress_and_points_to_next:
  assumes "r \<in> set ranks" and "in_range r points"
  shows "tier_of (getUserRank points) = r
       \<and> progressToNext (getUserRank points) = getProgressToNextRank points
       \<and> pointsToNext (getUserRank points) = getPointsToNextRank points
       \<and> (case maxPoints r of
            Finite mx \<Rightarrow>
              getProgressToNextRank points =
                dval (dmin (d_of_int 100) (dmax (d_of_int 0)
                  (dmul (ddiv (d_of_int (points - minPoints r)) (d_of_int (mx - minPoints r)))
                        (d_of_int 100))))
              \<and> 0 \<le> getProgressToNextRank points \<and> getProgressToNextRank points \<le> 100
              \<and> \<bar>getProgressToNextRank points
                   - 100 * of_int (points - minPoints r) / of_int (mx - minPoints r)\<bar>
                  \<le> 100 * of_int (points - minPoints r) / of_int (mx - minPoints r)
                       / 2251799813685248
              \<and> getPointsToNextRank points = Finite (mx + 1 - points)
          | Infinity \<Rightarrow>
              getProgressToNextRank points = 100 \<and> getPointsToNextRank points = Finite 0)"
proof -
  have res: "tier_of (getUserRank points) = r"
    using assms by (rule in_range_resolved)
  from assms(1) consider "r = BRONZE" | "r = SILVER" | "r = GOLD" | "r = PLATINUM" | "r = DIAMOND"
    by (auto simp add: set_ranks)
  then have "case maxPoints r of
            Finite mx \<Rightarrow>
              getProgressToNextRank points =
                dval (dmin (d_of_int 100) (dmax (d_of_int 0)
                  (dmul (ddiv (d_of_int (points - minPoints r)) (d_of_int (mx - minPoints r)))
                        (d_of_int 100))))
              \<and> 0 \<le> getProgressToNextRank points \<and> getProgressToNextRank points \<le> 100
              \<and> \<bar>getProgressToNextRank points
                   - 100 * of_int (points - minPoints r) / of_int (mx - minPoints r)\<bar>
                  \<le> 100 * of_int (points - minPoints r) / of_int (mx - minPoints r)
                       / 2251799813685248
              \<and> getPointsToNextRank points = Finite (mx + 1 - points)
          | Infinity \<Rightarrow>
              getProgressToNextRank points = 100 \<and> getPointsToNextRank points = Finite 0"
  proof cases
    case 1
    with assms(2) have b: "0 \<le> points" "points \<le> 99" by (simp_all add: in_range_tiers)
    show ?thesis
      by (rule finite_tier_progress [where mn = 0 and mx = 99])
        (use b in \<open>simp_all add: 1 progress_loop_ranks points_loop_ranks tier_min tier_max\<close>)
  next
    case 2
    with assms(2) have b: "100 \<le> points" "points \<le> 299" by (simp_all add: in_range_tiers)
    show ?thesis
      by (rule finite_tier_progress [where mn = 100 and mx = 299])
        (use b in \<open>simp_all add: 2 progress_loop_ranks points_loop_ranks tier_min tier_max\<close>)
  next
    case 3
    with assms(2) have b: "300 \<le> points" "points \<le> 599" by (simp_all add: in_range_tiers)
    show ?thesis
      by (rule finite_tier_progress [where mn = 300 and mx = 599])
        (use b in \<open>simp_all add: 3 progress_loop_ranks points_loop_ranks tier_min tier_max\<close>)
  next
    case 4
    with assms(2) have b: "600 \<le> points" "points \<le> 999" by (simp_all add: in_range_tiers)
    show ?thesis
      by (rule finite_tier_progress [where mn = 600 and mx = 999])
        (use b in \<open>simp_all add: 4 progress_loop_ranks points_loop_ranks tier_min tier_max\<close>)
  next
    case 5
    with assms(2) have "1000 \<le> points" by (simp add: in_range_tiers)
    with 5 show ?thesis
      by (simp add: tier_min tier_max progress_loop_ranks points_loop_ranks)
  qed
  with res show ?thesis
    by (simp add: getUserRank_fields)
qed

theorem progress_and_points_to_next_witness:
  "SILVER \<in> set ranks \<and> in_range SILVER 150
   \<and> tier_of (getUserRank 150) = SILVER
   \<and> getProgressToNextRank 150 = 7072235595745125 / 281474976710656
   \<and> \<bar>getProgressToNextRank 150 - 100 * 50 / 199\<bar> \<le> 100 * 50 / 199 / 2251799813685248
   \<and> getPointsToNextRank 150 = Finite 150
   \<and> progressToNext (getUserRank 150) = 7072235595745125 / 281474976710656
   \<and> pointsToNext (getUserRank 150) = Finite 150"
  using progress_and_points_to_next [of SILVER 150]
  by (simp add: set_ranks in_range_tiers tier_min tier_max progress_at_150)

text \<open>
  The claim as the specification words it fails in both halves. At 0 points the Bronze
  tier's \<open>maxPoints\<close> is 99 and \<open>pointsToNext\<close> is 100, not \<open>maxPoints - points\<close>. At 150
  points the progress is the double 25.125628140703515 (7072235595745125 / 2^48), not
  the quotient 5000 / 199.
\<close>

theorem points_to_next_counterexample:
  "tier_of (getUserRank 0) = BRONZE \<and> maxPoints BRONZE = Finite 99
   \<and> pointsToNext (getUserRank 0) \<noteq> Finite (99 - 0)
   \<and> tier_of (getUserRank 150) = SILVER
   \<and> progressToNext (getUserRank 150) \<noteq> 100 * (150 - 100) / (299 - 100)"
  by (simp add: tier_of_resolved tier_max getUserRank_fields points_loop_ranks progress_at_150)

text \<open>
  C10. For every point total below 0 no tier has \<open>points >= minPoints\<close>, and
  \<open>getUserRank\<close> returns through its fallback: the Bronze record with the points
  unchanged, \<open>progressToNext = 0\<close> and \<open>pointsToNext\<close> equal to Bronze's
  \<open>maxPoints + 1\<close> (that is 100) minus the points.
\<close>

theorem negative_points_fall_back_to_bronze:
  assumes "points < 0"
  shows "rank_loop (rev ranks) points = None
       \<and> getUserRank points =
           rank.extend BRONZE
             \<lparr>currentPoints = points, progressToNext = 0,
              pointsToNext = Finite (99 + 1 - points)\<rparr>
       \<and> maxPoints BRONZE = Finite 99"
  using assms
  by (simp add: getUserRank_def rank_loop_ranks progress_loop_ranks points_loop_ranks tier_max)

theorem negative_points_fall_back_to_bronze_witness:
  "(-5::int) < 0 \<and> tier_of (getUserRank (-5)) = BRONZE \<and> currentPoints (getUserRank (-5)) = -5
   \<and> progressToNext (getUserRank (-5)) = 0 \<and> pointsToNext (getUserRank (-5)) = Finite 105"
  using negative_points_fall_back_to_bronze [of "-5"]
  by (simp add: tier_of_def rank.defs)

section \<open>Properties of the score formula\<close>

text \<open>The sum of the seven terms, before the final \<open>Math.max(0, ...)\<close>.\<close>

lemma calculateRankingPoints_sum:
  "calculateRankingPoints s =
     max 0 (2 * totalWorkouts s + 3 * currentStreak s + 1 * longestStreak s
            + totalExercises s div 5 + consistencyScore s + 10 * personalRecords s
            + workoutDays s div 7)"
  by (simp add: calculateRankingPoints_def)

text \<open>
  C3 (amended). The score is the sum
  \<open>2*totalWorkouts + 3*currentStreak + 1*longestStreak + floor(totalExercises/5)
  + consistencyScore + 10*personalRecords + floor(workoutDays/7)\<close> over the inputs as
  they are, and only the sum is clamped to zero; the result is a non-negative integer, and
  when no input is negative it is exactly the sum (and equals the formula with clamped
  inputs).
\<close>

theorem score_formula:
  "calculateRankingPoints s =
     max 0 (2 * totalWorkouts s + 3 * currentStreak s + 1 * longestStreak s
            + totalExercises s div 5 + consistencyScore s + 10 * personalRecords s
            + workoutDays s div 7)
   \<and> 0 \<le> calculateRankingPoints s
   \<and> (0 \<le> totalWorkouts s \<and> 0 \<le> currentStreak s \<and> 0 \<le> longestStreak s
        \<and> 0 \<le> totalExercises s \<and> 0 \<le> consistencyScore s \<and> 0 \<le> personalRecords s
        \<and> 0 \<le> workoutDays s \<longrightarrow>
      calculateRankingPoints s =
        2 * totalWorkouts s + 3 * currentStreak s + 1 * longestStreak s
        + totalExercises s div 5 + consistencyScore s + 10 * personalRecords s
        + workoutDays s div 7
      \<and> calculateRankingPoints s = spec_clampedScore s)"
proof -
  have nonneg: "0 \<le> totalExercises s div 5 \<and> 0 \<le> workoutDays s div 7"
    if "0 \<le> totalExercises s" "0 \<le> workoutDays s"
    using that by (simp add: pos_imp_zdiv_nonneg_iff)
  show ?thesis
    using nonneg by (auto simp add: calculateRankingPoints_sum spec_clampedScore_def)
qed

theorem score_formula_witness:
  "calculateRankingPoints
     \<lparr>currentStreak = 2, longestStreak = 4, totalWorkouts = 12, totalExercises = 11,
      workoutDays = 30, personalRecords = 2, consistencyScore = 56\<rparr> = 116
   \<and> spec_clampedScore
     \<lparr>currentStreak = 2, longestStreak = 4, totalWorkouts = 12, totalExercises = 11,
      workoutDays = 30, personalRecords = 2, consistencyScore = 56\<rparr> = 116"
  using score_formula [of "\<lparr>currentStreak = 2, longestStreak = 4, totalWorkouts = 12,
      totalExercises = 11, workoutDays = 30, personalRecords = 2, consistencyScore = 56\<rparr>"]
  by simp

text \<open>
  With a negative input the source does not clamp before the summation: a negative
  \<open>totalWorkouts\<close> lowers the sum, so the result differs from the clamped formula.
\<close>

theorem score_clamp_counterexample:
  "calculateRankingPoints
     \<lparr>currentStreak = 1, longestStreak = 0, totalWorkouts = - 1, totalExercises = 0,
      workoutDays = 0, personalRecords = 0, consistencyScore = 0\<rparr> = 1
   \<and> spec_clampedScore
     \<lparr>currentStreak = 1, longestStreak = 0, totalWorkouts = - 1, totalExercises = 0,
      workoutDays = 0, personalRecords = 0, consistencyScore = 0\<rparr> = 3"
  by (simp add: calculateRankingPoints_sum spec_clampedScore_def)

text \<open>The score is monotone in all seven inputs together.\<close>

lemma calculateRankingPoints_mono:
  assumes "totalWorkouts s \<le> totalWorkouts s'" "currentStreak s \<le> currentStreak s'"
    "longestStreak s \<le> longestStreak s'" "totalExercises s \<le> totalExercises s'"
    "consistencyScore s \<le> consistencyScore s'" "personalRecords s \<le> personalRecords s'"
    "workoutDays s \<le> workoutDays s'"
  shows "calculateRankingPoints s \<le> calculateRankingPoints s'"
proof -
  have "totalExercises s div 5 \<le> totalExercises s' div 5"
    using assms(4) by (simp add: zdiv_mono1)
  moreover have "workoutDays s div 7 \<le> workoutDays s' div 7"
    using assms(7) by (simp add: zdiv_mono1)
  ultimately show ?thesis
    using assms by (simp add: calculateRankingPoints_sum)
qed

text \<open>
  C8. Increasing any single field of the statistics by any amount \<open>d \<ge> 0\<close>, the other
  fields unchanged, never decreases the score.
\<close>

theorem score_monotone_in_each_field:
  assumes "0 \<le> d"
  shows "calculateRankingPoints s \<le> calculateRankingPoints (s\<lparr>totalWorkouts := totalWorkouts s + d\<rparr>)
       \<and> calculateRankingPoints s \<le> calculateRankingPoints (s\<lparr>currentStreak := currentStreak s + d\<rparr>)
       \<and> calculateRankingPoints s \<le> calculateRankingPoints (s\<lparr>longestStreak := longestStreak s + d\<rparr>)
       \<and> calculateRankingPoints s \<le> calculateRankingPoints (s\<lparr>totalExercises := totalExercises s + d\<rparr>)
       \<and> calculateRankingPoints s \<le> calculateRankingPoints (s\<lparr>consistencyScore := consistencyScore s + d\<rparr>)
       \<and> calculateRankingPoints s \<le> calculateRankingPoints (s\<lparr>personalRecords := personalRecords s + d\<rparr>)
       \<and> calculateRankingPoints s \<le> calculateRankingPoints (s\<lparr>workoutDays := workoutDays s + d\<rparr>)"
  using assms by (simp add: calculateRankingPoints_mono)

theorem score_monotone_in_each_field_witness:
  "(0::int) \<le> 3
   \<and> calculateRankingPoints
       \<lparr>currentStreak = 0, longestStreak = 0, totalWorkouts = 0, totalExercises = 4,
        workoutDays = 6, personalRecords = 0, consistencyScore = 0\<rparr> = 0
   \<and> calculateRankingPoints
       \<lparr>currentStreak = 0, longestStreak = 0, totalWorkouts = 0, totalExercises = 4 + 3,
        workoutDays = 6, personalRecords = 0, consistencyScore = 0\<rparr> = 1"
  using score_monotone_in_each_field [of 3 "\<lparr>currentStreak = 0, longestStreak = 0,
      totalWorkouts = 0, totalExercises = 4, workoutDays = 6, personalRecords = 0,
      consistencyScore = 0\<rparr>"]
  by (simp add: calculateRankingPoints_sum)

text \<open>
  C6 (amended). The statistics of the scenario score 323 points, and 323 points resolve to
  the third tier, Gold, whose range is 300 to 599.
\<close>

theorem scenario_323_points:
  "calculateRankingPoints
     \<lparr>currentStreak = 7, longestStreak = 10, totalWorkouts = 50, totalExercises = 20,
      workoutDays = 60, personalRecords = 10, consistencyScore = 80\<rparr> = 323
   \<and> tier_of (getUserRank 323) = GOLD
   \<and> name (getUserRank 323) = ''Gold'' \<and> level (getUserRank 323) = 3
   \<and> minPoints GOLD = 300 \<and> maxPoints GOLD = Finite 599"
  by (simp add: calculateRankingPoints_sum tier_of_resolved getUserRank_tier_fields
      tier_level tier_min tier_max) (simp add: GOLD_def)

text \<open>The scenario's points do not resolve to the second tier, Silver.\<close>

theorem scenario_323_points_counterexample:
  "level (getUserRank (calculateRankingPoints
     \<lparr>currentStreak = 7, longestStreak = 10, totalWorkouts = 50, totalExercises = 20,
      workoutDays = 60, personalRecords = 10, consistencyScore = 80\<rparr>)) \<noteq> level SILVER
   \<and> \<not> in_range SILVER (calculateRankingPoints
     \<lparr>currentStreak = 7, longestStreak = 10, totalWorkouts = 50, totalExercises = 20,
      workoutDays = 60, personalRecords = 10, consistencyScore = 80\<rparr>)"
  by (simp add: calculateRankingPoints_sum tier_of_resolved getUserRank_tier_fields
      tier_level in_range_tiers)

text \<open>
  C7 (amended). For an empty workout history every field of the statistics is 0 and the
  array stays empty; the score is 0, which resolves to the lowest tier, Bronze, with
  \<open>progressToNext\<close> equal to 0 and \<open>pointsToNext\<close> equal to Bronze's \<open>maxPoints + 1\<close>.
\<close>

theorem empty_history_scenario:
  "calculateUserStats env [] =
     ([], \<lparr>currentStreak = 0, longestStreak = 0, totalWorkouts = 0, totalExercises = 0,
           workoutDays = 0, personalRecords = 0, consistencyScore = 0\<rparr>)
   \<and> calculateRankingPoints (snd (calculateUserStats env [])) = 0
   \<and> getUserRank (calculateRankingPoints (snd (calculateUserStats env []))) =
       rank.extend BRONZE
         \<lparr>currentPoints = 0, progressToNext = 0, pointsToNext = Finite (99 + 1)\<rparr>
   \<and> maxPoints BRONZE = Finite 99 \<and> level BRONZE = 1"
  by (simp add: calculateUserStats_def calculateRankingPoints_sum getUserRank_def
      rank_loop_ranks progress_at_0 points_loop_ranks tier_max tier_level)

text \<open>The progress of a user without workouts is not above 0.\<close>

theorem empty_history_progress_counterexample:
  "\<not> 0 < progressToNext (getUserRank (calculateRankingPoints
        (snd (calculateUserStats (utcPlatform 0) []))))"
  by (simp add: calculateUserStats_def calculateRankingPoints_sum getUserRank_fields
      progress_at_0)

section \<open>Streaks and the caller's array\<close>

text \<open>
  The inputs below use these instants (milliseconds since the epoch, UTC):
  2024-06-01T00:00 is 1717200000000, 2024-06-03T00:00 is 1717372800000,
  2024-06-05T00:00 is 1717545600000; the clock reads noon of the newest workout's day
  and the zone is UTC.
\<close>

lemma empty_history_streaks:
  "calculateStreaks env [] = ([], \<lparr>currentStreak = 0, longestStreak = 0\<rparr>)"
  by (simp add: calculateStreaks_def)

text \<open>
  C1. On 2024-06-03, a history with one workout on 2024-06-03 and one on 2024-06-01 (no
  workout on the day between) gets \<open>currentStreak = 2\<close> and \<open>longestStreak = 1\<close>: the
  current-streak walk moves \<open>checkDate\<close> to the day before the matched day and still
  accepts \<open>daysDiff = 1\<close> from there, while the longest-streak scan asks for a difference
  of exactly one day between neighbouring days.
\<close>

theorem current_streak_exceeds_longest:
  "snd (calculateStreaks (utcPlatform 1717416000000)
     [\<lparr>workout_id = 1, workout_date = 1717372800000, exercises = None\<rparr>,
      \<lparr>workout_id = 2, workout_date = 1717200000000, exercises = None\<rparr>])
   = \<lparr>currentStreak = 2, longestStreak = 1\<rparr>"
  by (simp add: calculateStreaks_def startOfDay_def previousDay_def msPerDay_def setValues_def
      utcPlatform_def)

text \<open>
  C2. On 2024-06-05, with workouts on 2024-06-05, 2024-06-03 and 2024-06-01, the walk
  counts all three days, although each is two calendar days before the one matched
  before it.
\<close>

theorem current_streak_counts_days_two_apart:
  "currentStreak (snd (calculateStreaks (utcPlatform 1717588800000)
     [\<lparr>workout_id = 1, workout_date = 1717545600000, exercises = None\<rparr>,
      \<lparr>workout_id = 2, workout_date = 1717372800000, exercises = None\<rparr>,
      \<lparr>workout_id = 3, workout_date = 1717200000000, exercises = None\<rparr>])) = 3
   \<and> currentStreak_loop (utcPlatform 1717588800000) 1717545600000
         [1717545600000, 1717372800000, 1717200000000] 0 = 3
   \<and> (1717545600000 - 1717372800000) div msPerDay = 2
   \<and> (1717372800000 - 1717200000000) div msPerDay = 2"
  by (simp add: calculateStreaks_def startOfDay_def previousDay_def msPerDay_def setValues_def
      utcPlatform_def)

text \<open>
  C9. An array holding the workout of 2024-06-01 before the workout of 2024-06-03 holds
  them in the opposite order after \<open>calculateStreaks\<close>, and after \<open>calculateUserStats\<close>
  as well: \<open>workouts.sort(...)\<close> sorts the caller's array itself.
\<close>

theorem caller_array_is_reordered:
  "fst (calculateStreaks (utcPlatform 1717416000000)
     [\<lparr>workout_id = 1, workout_date = 1717200000000, exercises = None\<rparr>,
      \<lparr>workout_id = 2, workout_date = 1717372800000, exercises = None\<rparr>])
   = [\<lparr>workout_id = 2, workout_date = 1717372800000, exercises = None\<rparr>,
      \<lparr>workout_id = 1, workout_date = 1717200000000, exercises = None\<rparr>]
   \<and> fst (calculateUserStats (utcPlatform 1717416000000)
     [\<lparr>workout_id = 1, workout_date = 1717200000000, exercises = None\<rparr>,
      \<lparr>workout_id = 2, workout_date = 1717372800000, exercises = None\<rparr>])
   = [\<lparr>workout_id = 2, workout_date = 1717372800000, exercises = None\<rparr>,
      \<lparr>workout_id = 1, workout_date = 1717200000000, exercises = None\<rparr>]"
  by (simp add: calculateUserStats_def calculateStreaks_def startOfDay_def previousDay_def
      msPerDay_def setValues_def ceilDiv_def exerciseKeys_def split_def utcPlatform_def)

section \<open>The model on further inputs\<close>

text \<open>
  Seven workouts over ten days: \<open>10 / 7\<close>, then \<open>7 / 1.4285714285714286\<close>, then the
  product with 20 give the double 97.99999999999999, and the consistency score is 97.
\<close>

lemma consistency_of_seven_workouts_in_ten_days:
  "dfloor (dmul (ddiv (d_of_int 7) (dmax (d_of_int 1) (ddiv (d_of_int 10) (d_of_int 7))))
     (d_of_int 20)) = 97"
  by (simp add: ddiv_def dmul_def dmax_def d_of_int_def dround_def round53_def round_even_def
      dval_def pow2_def dfloor_def norm_up.simps norm_down.simps)

text \<open>
  Workouts at the local midnights of 2024-03-09, 03-10 and 03-11 in US Eastern time, the
  clock at 2024-03-11T16:00Z: the midnights of 03-10 and 03-11 are 23 hours apart, so the
  longest-streak scan sees a difference of 0 days there, and the result is
  \<open>{currentStreak: 3, longestStreak: 2}\<close>.
\<close>

lemma streaks_across_daylight_saving_change:
  "snd (calculateStreaks \<lparr>now = 1710172800000, localTZA = usEastern, toLowerCase = asciiToLowerCase\<rparr>
     [\<lparr>workout_id = 1, workout_date = 1709960400000, exercises = None\<rparr>,
      \<lparr>workout_id = 2, workout_date = 1710046800000, exercises = None\<rparr>,
      \<lparr>workout_id = 3, workout_date = 1710129600000, exercises = None\<rparr>])
   = \<lparr>currentStreak = 3, longestStreak = 2\<rparr>"
  by (simp add: calculateStreaks_def startOfDay_def previousDay_def msPerDay_def setValues_def
      usEastern_def)

end
